theory Spec2Isabelle
  imports Complex_Main "HOL-Library.Sublist" "HOL-Library.AList"
begin

section \<open>The tools download of the CodeQL Action (src/tools-download.ts)\<close>

text \<open>
  The module downloads the CodeQL bundle from a URL and extracts it, either by streaming
  the HTTP response into the extractor, or by downloading the archive to a temporary
  file first. Its functions are embedded here as functions over an explicit world: every
  call of a collaborator (logger, network, extractor, file system) is appended to a
  trace, and what a collaborator answers is read from an environment record, so that the
  model is a total, executable function of the environment.
\<close>

subsection \<open>Values\<close>

text \<open>
  A thrown value. \<open>Error m\<close> is a JavaScript \<open>Error\<close> object with message \<open>m\<close>;
  \<open>UnrecognizedFormat\<close> is the failure the specification names for a URL the compression
  classifier does not know.
\<close>

datatype error = Error string | UnrecognizedFormat

text \<open>
  What awaiting a promise gives: it is fulfilled with a value, it is rejected with a
  thrown value, or it never settles.
\<close>

datatype 'a outcome = Return 'a | Throw error | Pending

text \<open>
  \<open>tar.CompressionMethod\<close> is declared in tar.ts, which is not among the sources. At run
  time its values are strings, and the code compares one against the literal "zstd".
\<close>

type_synonym CompressionMethod = string

text \<open>
  \<open>OutgoingHttpHeaders\<close> of Node: an object from header names to a string, a number, a
  list of strings, or undefined. An object is an association list in insertion order with
  distinct keys.
\<close>

datatype header_value = HString string | HNumber int | HStrings "string list" | HUndefined

type_synonym OutgoingHttpHeaders = "(string \<times> header_value) list"

text \<open>The part of Node's \<open>IncomingMessage\<close> the code reads: \<open>statusCode\<close> is a number or undefined.\<close>

record IncomingMessage =
  statusCode :: "int option"
  body :: string

subsection \<open>Duration and status reports\<close>

text \<open>
  \<open>DownloadFirstToolsDownloadDurations\<close> and \<open>StreamedToolsDownloadDurations\<close> are two shapes
  of one object with the same four properties; \<open>undefined\<close> is \<open>None\<close>.
\<close>

record ToolsDownloadDurations =
  combinedDurationMs :: int
  downloadDurationMs :: "int option"
  extractionDurationMs :: "int option"
  streamExtraction :: bool

definition makeDownloadFirstToolsDownloadDurations :: "int \<Rightarrow> int \<Rightarrow> ToolsDownloadDurations" where
  "makeDownloadFirstToolsDownloadDurations downloadMs extractionMs =
     \<lparr> combinedDurationMs = downloadMs + extractionMs,
       downloadDurationMs = Some downloadMs,
       extractionDurationMs = Some extractionMs,
       streamExtraction = False \<rparr>"

definition makeStreamedToolsDownloadDurations :: "int \<Rightarrow> ToolsDownloadDurations" where
  "makeStreamedToolsDownloadDurations combinedMs =
     \<lparr> combinedDurationMs = combinedMs,
       downloadDurationMs = None,
       extractionDurationMs = None,
       streamExtraction = True \<rparr>"

text \<open>
  \<open>ToolsDownloadStatusReport\<close>: the three properties of its own, intersected with the
  durations. The optional \<open>zstdFailureReason\<close> is \<open>None\<close> when the property is absent.
\<close>

record ToolsDownloadStatusReport = ToolsDownloadDurations +
  compressionMethod :: CompressionMethod
  toolsUrl :: string
  zstdFailureReason :: "string option"

text \<open>
  The object literal \<open>{ compressionMethod, toolsUrl: ..., ...durations }\<close> of the two return
  statements: it has no \<open>zstdFailureReason\<close> property.
\<close>

definition statusReportOf ::
  "CompressionMethod \<Rightarrow> string \<Rightarrow> ToolsDownloadDurations \<Rightarrow> ToolsDownloadStatusReport" where
  "statusReportOf method url d =
     \<lparr> combinedDurationMs = combinedDurationMs d,
       downloadDurationMs = downloadDurationMs d,
       extractionDurationMs = extractionDurationMs d,
       streamExtraction = streamExtraction d,
       compressionMethod = method,
       toolsUrl = url,
       zstdFailureReason = None \<rparr>"

record DownloadResult =
  extractedBundlePath :: string
  statusReport :: ToolsDownloadStatusReport

subsection \<open>The URL sanitizer\<close>

definition trustedRepos :: "string list" where
  "trustedRepos = [''github/codeql-action'', ''dsp-testing/codeql-cli-nightlies'']"

definition releasePrefix :: "string \<Rightarrow> string" where
  "releasePrefix repo = ''https://github.com/'' @ repo @ ''/releases/download/''"

definition sanitizeUrlForStatusReport :: "string \<Rightarrow> string" where
  "sanitizeUrlForStatusReport url =
     (if list_ex (\<lambda>repo. prefix (releasePrefix repo) url) trustedRepos
      then url else ''sanitized-value'')"

subsection \<open>The world and the environment\<close>

text \<open>
  One entry of the trace for every call the code makes to a collaborator, with the
  arguments of the call. \<open>'tv\<close> is \<open>tar.TarVersion\<close>, declared in tar.ts: the code only
  passes it on.
\<close>

datatype 'tv event =
    LoggerInfo string
  | LoggerWarning string
  | CoreWarning string
  | NewURL string
  | GetProxyUrl string
  | HttpsGet string OutgoingHttpHeaders nat
  | ExtractTarZst IncomingMessage "'tv option"
  | DownloadTool string string "string option" OutgoingHttpHeaders
  | TarExtract string CompressionMethod "'tv option"
  | DeleteGlob string

text \<open>
  The world: the trace so far, how many times \<open>performance.now()\<close> has been read, and how
  many identifiers \<open>uuidV4()\<close> has drawn.
\<close>

record 'tv world =
  trace :: "'tv event list"
  ticks :: nat
  draws :: nat

text \<open>
  The environment: what the platform and the collaborators answer. A \<open>URL\<close> object is
  represented by its serialisation. \<open>https_get\<close> is what becomes of the promise the code
  builds around \<open>https.get\<close>: the callback is called with a response (\<open>Return\<close>), the call
  throws inside the promise's executor (\<open>Throw\<close>), or the callback is never called
  (\<open>Pending\<close>; the executor binds no \<open>reject\<close>). The other asynchronous collaborators
  settle: \<open>Inl\<close> is a rejection. \<open>tar_inferCompressionMethod\<close>, \<open>util_getErrorMessage\<close> and
  \<open>formatDuration\<close> are functions of tar.ts, util.ts and logging.ts, which are not among the
  sources; \<open>fs_delete\<close> and \<open>cleanUpFailureMessage\<close> are used by \<open>cleanUpGlob\<close> below.
\<close>

record 'tv env =
  process_platform :: string
  performance_now :: "nat \<Rightarrow> real"
  uuidV4 :: "nat \<Rightarrow> string"
  path_join :: "string \<Rightarrow> string \<Rightarrow> string"
  formatDuration :: "int \<Rightarrow> string"
  util_getErrorMessage :: "error \<Rightarrow> string"
  tar_inferCompressionMethod :: "string \<Rightarrow> error + CompressionMethod"
  new_URL :: "string \<Rightarrow> error + string"
  getProxyUrl :: "string \<Rightarrow> string option"
  https_get :: "string \<Rightarrow> OutgoingHttpHeaders \<Rightarrow> nat \<Rightarrow> IncomingMessage outcome"
  tar_extractTarZst :: "IncomingMessage \<Rightarrow> 'tv option \<Rightarrow> error + string"
  toolcache_downloadTool ::
    "string \<Rightarrow> string \<Rightarrow> string option \<Rightarrow> OutgoingHttpHeaders \<Rightarrow> error + string"
  tar_extract :: "string \<Rightarrow> CompressionMethod \<Rightarrow> 'tv option \<Rightarrow> error + string"
  fs_delete :: "string \<Rightarrow> error + unit"
  cleanUpFailureMessage :: "string \<Rightarrow> error \<Rightarrow> string"

definition emit :: "'tv event \<Rightarrow> 'tv world \<Rightarrow> 'tv world" where
  "emit ev w = w\<lparr>trace := trace w @ [ev]\<rparr>"

text \<open>\<open>performance.now()\<close>: the next reading of the clock.\<close>

definition now :: "'tv env \<Rightarrow> 'tv world \<Rightarrow> real \<times> 'tv world" where
  "now env w = (performance_now env (ticks w), w\<lparr>ticks := Suc (ticks w)\<rparr>)"

text \<open>\<open>uuidV4()\<close>: the next identifier.\<close>

definition uuid :: "'tv env \<Rightarrow> 'tv world \<Rightarrow> string \<times> 'tv world" where
  "uuid env w = (uuidV4 env (draws w), w\<lparr>draws := Suc (draws w)\<rparr>)"

text \<open>\<open>Math.round\<close>: the nearest integer, a tie going up.\<close>

definition Math_round :: "real \<Rightarrow> int" where
  "Math_round x = \<lfloor>x + 1 / 2\<rfloor>"

text \<open>How a template literal prints an integer, and a number that may be undefined.\<close>

fun showNat :: "nat \<Rightarrow> string" where
  "showNat n =
     (if n < 10 then [''0123456789'' ! n]
      else showNat (n div 10) @ [''0123456789'' ! (n mod 10)])"

declare showNat.simps [simp del]

definition showInt :: "int \<Rightarrow> string" where
  "showInt i = (if i < 0 then ''-'' @ showNat (nat (- i)) else showNat (nat i))"

definition showNumber :: "int option \<Rightarrow> string" where
  "showNumber n = (case n of None \<Rightarrow> ''undefined'' | Some i \<Rightarrow> showInt i)"

subsection \<open>Messages\<close>

text \<open>The texts of the log lines and of the error of the streaming strategy.\<close>

definition downloadingMessage :: "string \<Rightarrow> string" where
  "downloadingMessage codeqlURL =
     ''Downloading CodeQL tools from '' @ codeqlURL @ '' . This may take a while.''"

definition streamingMessage :: string where
  "streamingMessage = ''Streaming the extraction of the CodeQL bundle.''"

definition finishedMessage :: "string \<Rightarrow> string \<Rightarrow> string \<Rightarrow> string" where
  "finishedMessage what path duration =
     ''Finished '' @ what @ '' CodeQL bundle to '' @ path @ '' ('' @ duration @ '').''"

definition extractingMessage :: string where
  "extractingMessage = ''Extracting CodeQL bundle.''"

definition fallbackWarning :: string where
  "fallbackWarning = ''Failed to download and extract CodeQL bundle using streaming. ''
     @ ''Falling back to downloading the bundle before extracting.''"

definition statusCodeError :: "string \<Rightarrow> int option \<Rightarrow> error" where
  "statusCodeError codeqlURL code =
     Error (''Failed to download CodeQL bundle from '' @ codeqlURL
       @ ''. HTTP status code: '' @ showNumber code @ ''.'')"

subsection \<open>The streaming strategy\<close>

definition STREAMING_HIGH_WATERMARK_BYTES :: nat where
  "STREAMING_HIGH_WATERMARK_BYTES = 4 * 1024 * 1024"

text \<open>
  \<open>Object.assign(target, ...sources)\<close>: each property of each source, in order, is written
  to the target; a key the target has keeps its place and takes the new value, a new key
  goes to the end.
\<close>

definition assignFrom ::
  "('k \<times> 'v) list \<Rightarrow> ('k \<times> 'v) list \<Rightarrow> ('k \<times> 'v) list" where
  "assignFrom source target = fold (\<lambda>(k, v). AList.update k v) source target"

definition Object_assign :: "('k \<times> 'v) list \<Rightarrow> ('k \<times> 'v) list list \<Rightarrow> ('k \<times> 'v) list" where
  "Object_assign target sources = fold assignFrom sources target"

text \<open>
  The headers of the request: \<open>authorization ? { authorization } : {}\<close> is the empty
  object when the authorization is undefined or the empty string.
\<close>

definition requestHeaders :: "string option \<Rightarrow> OutgoingHttpHeaders \<Rightarrow> OutgoingHttpHeaders" where
  "requestHeaders authorization headers =
     Object_assign [(''User-Agent'', HString ''CodeQL Action'')]
       [ (case authorization of
            None \<Rightarrow> []
          | Some a \<Rightarrow> if a = [] then [] else [(''authorization'', HString a)]),
         headers ]"

text \<open>
  \<open>adjustUrlByProxy\<close>: \<open>new URL(url)\<close> throws on a string that is not a URL; a \<open>URL\<close> object
  is truthy, so a proxy that is found is returned as its string.
\<close>

definition adjustUrlByProxy ::
  "'tv env \<Rightarrow> string \<Rightarrow> 'tv world \<Rightarrow> (error + string option) \<times> 'tv world" where
  "adjustUrlByProxy env url w =
     (let w1 = emit (NewURL url) w in
      case new_URL env url of
        Inl e \<Rightarrow> (Inl e, w1)
      | Inr u \<Rightarrow>
          (let w2 = emit (GetProxyUrl u) w1 in
           case getProxyUrl env u of
             Some proxyUrl \<Rightarrow> (Inr (Some proxyUrl), w2)
           | None \<Rightarrow> (Inr None, w2)))"

text \<open>\<open>adjustUrlByProxy(codeqlURL) || codeqlURL\<close>: undefined and the empty string are falsy.\<close>

definition orElse :: "string option \<Rightarrow> string \<Rightarrow> string" where
  "orElse adjusted url = (case adjusted of None \<Rightarrow> url | Some p \<Rightarrow> if p = [] then url else p)"

text \<open>
  \<open>downloadAndExtractZstdWithStreaming\<close>. Its \<open>tarVersion\<close> parameter is declared
  \<open>tar.TarVersion\<close>, but the caller passes \<open>tarVersion!\<close>, which is erased at compilation:
  the value at run time is the caller's, undefined included, so the model takes an option.
\<close>

definition downloadAndExtractZstdWithStreaming ::
  "'tv env \<Rightarrow> string \<Rightarrow> string option \<Rightarrow> OutgoingHttpHeaders \<Rightarrow> 'tv option \<Rightarrow> 'tv world
     \<Rightarrow> string outcome \<times> 'tv world" where
  "downloadAndExtractZstdWithStreaming env codeqlURL authorization headers tarVersion w =
     (case adjustUrlByProxy env codeqlURL w of
        (Inl e, w1) \<Rightarrow> (Throw e, w1)
      | (Inr adjusted, w1) \<Rightarrow>
          (let downloadUrl = orElse adjusted codeqlURL;
               headers' = requestHeaders authorization headers;
               w2 = emit (HttpsGet downloadUrl headers' STREAMING_HIGH_WATERMARK_BYTES) w1
           in case https_get env downloadUrl headers' STREAMING_HIGH_WATERMARK_BYTES of
                Pending \<Rightarrow> (Pending, w2)
              | Throw e \<Rightarrow> (Throw e, w2)
              | Return response \<Rightarrow>
                  if statusCode response \<noteq> Some 200
                  then (Throw (statusCodeError codeqlURL (statusCode response)), w2)
                  else
                    (let w3 = emit (ExtractTarZst response tarVersion) w2 in
                     case tar_extractTarZst env response tarVersion of
                       Inl e \<Rightarrow> (Throw e, w3)
                     | Inr extracted \<Rightarrow> (Return extracted, w3))))"

subsection \<open>The download-first strategy\<close>

text \<open>
  Modelled from the spec: \<open>cleanUpGlob\<close> of util.ts, which is not among the sources. The
  specification says of the deletion of the temporary archive that it is attempted and
  that its failure is logged as a warning and never escalated: the call deletes what the
  glob matches, logs a warning when the deletion fails, and returns in both cases. The
  result type is that of any awaited call, so that the caller's \<open>finally\<close> is modelled for
  a clean-up that could throw.
\<close>

definition cleanUpGlob ::
  "'tv env \<Rightarrow> string \<Rightarrow> string \<Rightarrow> 'tv world \<Rightarrow> (error + unit) \<times> 'tv world" where
  "cleanUpGlob env glob name w =
     (let w1 = emit (DeleteGlob glob) w in
      case fs_delete env glob of
        Inl e \<Rightarrow> (Inr (), emit (LoggerWarning (cleanUpFailureMessage env name e)) w1)
      | Inr u \<Rightarrow> (Inr (), w1))"

text \<open>
  \<open>try { ... } finally { await cleanUpGlob(...) }\<close>: the clean-up runs after the block
  whatever its result; if the clean-up throws, its error replaces the block's result.
\<close>

definition archiveName :: string where
  "archiveName = ''CodeQL bundle archive''"

definition finallyCleanUp ::
  "'tv env \<Rightarrow> string \<Rightarrow> 'a outcome \<times> 'tv world \<Rightarrow> 'a outcome \<times> 'tv world" where
  "finallyCleanUp env archivedBundlePath r =
     (case r of
        (Pending, w) \<Rightarrow> (Pending, w)
      | (res, w) \<Rightarrow>
          (case cleanUpGlob env archivedBundlePath archiveName w of
             (Inl e, w') \<Rightarrow> (Throw e, w')
           | (Inr u, w') \<Rightarrow> (res, w')))"

text \<open>
  The block of the \<open>try\<close>: the extraction of the downloaded archive, timed. It gives the
  extracted path and \<open>extractionDurationMs\<close>.
\<close>

definition extractArchive ::
  "'tv env \<Rightarrow> string \<Rightarrow> CompressionMethod \<Rightarrow> 'tv option \<Rightarrow> 'tv world
     \<Rightarrow> (string \<times> int) outcome \<times> 'tv world" where
  "extractArchive env archivedBundlePath method tarVersion w =
     (let w1 = emit (LoggerInfo extractingMessage) w;
          (extractionStart, w2) = now env w1;
          w3 = emit (TarExtract archivedBundlePath method tarVersion) w2
      in case tar_extract env archivedBundlePath method tarVersion of
           Inl e \<Rightarrow> (Throw e, w3)
         | Inr extracted \<Rightarrow>
             (let (t, w4) = now env w3;
                  extractionMs = Math_round (t - extractionStart);
                  w5 = emit (LoggerInfo (finishedMessage ''extracting'' extracted
                         (formatDuration env extractionMs))) w4
              in (Return (extracted, extractionMs), w5)))"

text \<open>
  The rest of \<open>downloadAndExtract\<close> after the streaming attempt (from \<open>const dest\<close> to the
  last \<open>return\<close>): download to a fresh file of the temporary directory, extract, delete
  the archive, report.
\<close>

definition downloadFirst ::
  "'tv env \<Rightarrow> string \<Rightarrow> string option \<Rightarrow> OutgoingHttpHeaders \<Rightarrow> 'tv option \<Rightarrow> string
     \<Rightarrow> CompressionMethod \<Rightarrow> 'tv world \<Rightarrow> DownloadResult outcome \<times> 'tv world" where
  "downloadFirst env codeqlURL authorization headers tarVersion tempDir method w =
     (let (u, w1) = uuid env w;
          dest = path_join env tempDir u;
          (toolsDownloadStart, w2) = now env w1;
          w3 = emit (DownloadTool codeqlURL dest authorization headers) w2
      in case toolcache_downloadTool env codeqlURL dest authorization headers of
           Inl e \<Rightarrow> (Throw e, w3)
         | Inr archivedBundlePath \<Rightarrow>
             (let (t, w4) = now env w3;
                  downloadMs = Math_round (t - toolsDownloadStart);
                  w5 = emit (LoggerInfo (finishedMessage ''downloading'' archivedBundlePath
                         (formatDuration env downloadMs))) w4
              in case finallyCleanUp env archivedBundlePath
                        (extractArchive env archivedBundlePath method tarVersion w5) of
                   (Return (extracted, extractionMs), w6) \<Rightarrow>
                     (Return \<lparr> extractedBundlePath = extracted,
                               statusReport = statusReportOf method
                                 (sanitizeUrlForStatusReport codeqlURL)
                                 (makeDownloadFirstToolsDownloadDurations downloadMs extractionMs) \<rparr>,
                      w6)
                 | (Throw e, w6) \<Rightarrow> (Throw e, w6)
                 | (Pending, w6) \<Rightarrow> (Pending, w6)))"

subsection \<open>The orchestrator\<close>

definition downloadAndExtract ::
  "'tv env \<Rightarrow> string \<Rightarrow> string option \<Rightarrow> OutgoingHttpHeaders \<Rightarrow> 'tv option \<Rightarrow> string
     \<Rightarrow> 'tv world \<Rightarrow> DownloadResult outcome \<times> 'tv world" where
  "downloadAndExtract env codeqlURL authorization headers tarVersion tempDir w =
     (let w1 = emit (LoggerInfo (downloadingMessage codeqlURL)) w
      in case tar_inferCompressionMethod env codeqlURL of
           Inl e \<Rightarrow> (Throw e, w1)
         | Inr method \<Rightarrow>
             if method = ''zstd'' \<and> process_platform env = ''linux'' then
               (let w2 = emit (LoggerInfo streamingMessage) w1;
                    (toolsInstallStart, w3) = now env w2
                in case downloadAndExtractZstdWithStreaming env codeqlURL authorization headers
                          tarVersion w3 of
                     (Return extracted, w4) \<Rightarrow>
                       (let (t, w5) = now env w4;
                            combinedMs = Math_round (t - toolsInstallStart);
                            w6 = emit (LoggerInfo (finishedMessage ''downloading and extracting''
                                   extracted (formatDuration env combinedMs))) w5
                        in (Return \<lparr> extractedBundlePath = extracted,
                                     statusReport = statusReportOf method
                                       (sanitizeUrlForStatusReport codeqlURL)
                                       (makeStreamedToolsDownloadDurations combinedMs) \<rparr>,
                            w6))
                   | (Throw e, w4) \<Rightarrow>
                       downloadFirst env codeqlURL authorization headers tarVersion tempDir method
                         (emit (CoreWarning (util_getErrorMessage env e))
                            (emit (CoreWarning fallbackWarning) w4))
                   | (Pending, w4) \<Rightarrow> (Pending, w4))
             else downloadFirst env codeqlURL authorization headers tarVersion tempDir method w1)"

subsection \<open>The compression classifier\<close>

text \<open>
  Modelled from the spec: \<open>tar.inferCompressionMethod\<close> of tar.ts, which is not among the
  sources. The specification describes a pure function from the URL to the compression
  method, by the suffix of the URL, which signals \<open>UnrecognizedFormat\<close> for a URL
  whose suffix maps to no known method. It names no suffix: the known suffixes, each with
  its method, are a parameter.
\<close>

definition classify :: "(string \<times> CompressionMethod) list \<Rightarrow> string \<Rightarrow> error + CompressionMethod" where
  "classify known url =
     (case find (\<lambda>(sfx, method). suffix sfx url) known of
        None \<Rightarrow> Inl UnrecognizedFormat
      | Some (sfx, method) \<Rightarrow> Inr method)"

subsection \<open>Observations\<close>

text \<open>The prefixes the sanitizer trusts, and whether a URL begins with one of them.\<close>

definition trustedPrefixes :: "string list" where
  "trustedPrefixes = map releasePrefix trustedRepos"

definition hasTrustedPrefix :: "string \<Rightarrow> bool" where
  "hasTrustedPrefix url = list_ex (\<lambda>p. prefix p url) trustedPrefixes"

text \<open>
  Every run of the streaming strategy begins with the one \<open>new URL\<close> of the module, and
  every run of the download-first strategy makes the one call of \<open>toolcache.downloadTool\<close>:
  counting these events in a trace counts the runs of each strategy.
\<close>

definition isNewURL :: "'tv event \<Rightarrow> bool" where
  "isNewURL ev = (case ev of NewURL u \<Rightarrow> True | _ \<Rightarrow> False)"

definition isDownloadTool :: "'tv event \<Rightarrow> bool" where
  "isDownloadTool ev = (case ev of DownloadTool u d a h \<Rightarrow> True | _ \<Rightarrow> False)"

definition streamingAttempts :: "'tv event list \<Rightarrow> nat" where
  "streamingAttempts tr = length (filter isNewURL tr)"

definition downloadFirstAttempts :: "'tv event list \<Rightarrow> nat" where
  "downloadFirstAttempts tr = length (filter isDownloadTool tr)"

definition isHttpsGet :: "'tv event \<Rightarrow> bool" where
  "isHttpsGet ev = (case ev of HttpsGet u hs n \<Rightarrow> True | _ \<Rightarrow> False)"

text \<open>
  The world in which \<open>downloadAndExtract\<close> calls the streaming strategy: the two lines are
  logged and \<open>toolsInstallStart\<close> is read.
\<close>

definition streamingStart :: "'tv env \<Rightarrow> string \<Rightarrow> 'tv world \<Rightarrow> 'tv world" where
  "streamingStart env codeqlURL w =
     snd (now env (emit (LoggerInfo streamingMessage)
       (emit (LoggerInfo (downloadingMessage codeqlURL)) w)))"

text \<open>The clock never goes back: the contract of \<open>performance.now()\<close>.\<close>

definition monotonic :: "'tv env \<Rightarrow> bool" where
  "monotonic env = (\<forall>i. performance_now env i \<le> performance_now env (Suc i))"

subsection \<open>A concrete environment\<close>

text \<open>
  A Linux runner without proxy on which the server answers with the given status code,
  the clock advances by 2.5 ms between two readings, the extraction of a downloaded
  archive and the deletion of a file succeed or fail as the two flags say, and everything
  else succeeds. It is used to run the model on concrete requests.
\<close>

definition demoKnown :: "(string \<times> CompressionMethod) list" where
  "demoKnown = [(''.tar.gz'', ''gzip''), (''.tar.zst'', ''zstd'')]"

definition demoEnv :: "int \<Rightarrow> bool \<Rightarrow> bool \<Rightarrow> nat env" where
  "demoEnv code extractOk deleteOk =
     \<lparr> process_platform = ''linux'',
       performance_now = (\<lambda>n. real n * 5 / 2),
       uuidV4 = (\<lambda>n. ''id'' @ showNat n),
       path_join = (\<lambda>dir file. dir @ ''/'' @ file),
       formatDuration = (\<lambda>ms. showInt ms @ ''ms''),
       util_getErrorMessage = (\<lambda>e. case e of Error m \<Rightarrow> m | UnrecognizedFormat \<Rightarrow> ''unrecognized''),
       tar_inferCompressionMethod = classify demoKnown,
       new_URL = (\<lambda>url. Inr url),
       getProxyUrl = (\<lambda>url. None),
       https_get = (\<lambda>url headers mark. Return \<lparr> statusCode = Some code, body = [] \<rparr>),
       tar_extractTarZst = (\<lambda>response tv. Inr ''/ql''),
       toolcache_downloadTool = (\<lambda>url dest authorization headers. Inr dest),
       tar_extract = (\<lambda>path method tv. if extractOk then Inr ''/ql'' else Inl (Error ''tar'')),
       fs_delete = (\<lambda>path. if deleteOk then Inr () else Inl (Error ''busy'')),
       cleanUpFailureMessage = (\<lambda>name e. ''Failed to clean up '' @ name) \<rparr>"

definition demoWorld :: "nat world" where
  "demoWorld = \<lparr> trace = [], ticks = 0, draws = 0 \<rparr>"

definition zstUrl :: string where
  "zstUrl = ''https://h/b.tar.zst''"

definition gzUrl :: string where
  "gzUrl = ''https://h/b.tar.gz''"

definition zipUrl :: string where
  "zipUrl = ''https://h/b.zip''"


text \<open>
  The same runner when the host of the bundle cannot be reached: the callback of
  \<open>https.get\<close> is never called.
\<close>

definition unreachableEnv :: "nat env" where
  "unreachableEnv = (demoEnv 200 True True)\<lparr> https_get := (\<lambda>url headers mark. Pending) \<rparr>"

section \<open>Properties\<close>

subsection \<open>The world after each step\<close>

lemma emit_simps [simp]:
  "trace (emit ev w) = trace w @ [ev]" "ticks (emit ev w) = ticks w" "draws (emit ev w) = draws w"
  by (simp_all add: emit_def)

lemma now_simps [simp]:
  "fst (now env w) = performance_now env (ticks w)"
  "trace (snd (now env w)) = trace w"
  "ticks (snd (now env w)) = Suc (ticks w)"
  "draws (snd (now env w)) = draws w"
  by (simp_all add: now_def)

lemma uuid_simps [simp]:
  "fst (uuid env w) = uuidV4 env (draws w)"
  "trace (snd (uuid env w)) = trace w"
  "ticks (snd (uuid env w)) = ticks w"
  "draws (snd (uuid env w)) = Suc (draws w)"
  by (simp_all add: uuid_def)

lemma attempts_append [simp]:
  "streamingAttempts (xs @ ys) = streamingAttempts xs + streamingAttempts ys"
  "downloadFirstAttempts (xs @ ys) = downloadFirstAttempts xs + downloadFirstAttempts ys"
  by (simp_all add: streamingAttempts_def downloadFirstAttempts_def)

lemma attempts_Cons [simp]:
  "streamingAttempts [] = 0"
  "downloadFirstAttempts [] = 0"
  "streamingAttempts (ev # tr) = (if isNewURL ev then 1 else 0) + streamingAttempts tr"
  "downloadFirstAttempts (ev # tr) = (if isDownloadTool ev then 1 else 0) + downloadFirstAttempts tr"
  by (simp_all add: streamingAttempts_def downloadFirstAttempts_def)

lemma is_event_simps [simp]:
  "isNewURL (NewURL u)" "\<not> isNewURL (LoggerInfo s)" "\<not> isNewURL (LoggerWarning s)"
  "\<not> isNewURL (CoreWarning s)" "\<not> isNewURL (GetProxyUrl u)" "\<not> isNewURL (HttpsGet u hs n)"
  "\<not> isNewURL (ExtractTarZst r tv)" "\<not> isNewURL (DownloadTool u d a hs)"
  "\<not> isNewURL (TarExtract p m tv)" "\<not> isNewURL (DeleteGlob g)"
  "isDownloadTool (DownloadTool u d a hs)" "\<not> isDownloadTool (LoggerInfo s)"
  "\<not> isDownloadTool (LoggerWarning s)" "\<not> isDownloadTool (CoreWarning s)"
  "\<not> isDownloadTool (GetProxyUrl u)" "\<not> isDownloadTool (HttpsGet u hs n)"
  "\<not> isDownloadTool (ExtractTarZst r tv)" "\<not> isDownloadTool (NewURL u)"
  "\<not> isDownloadTool (TarExtract p m tv)" "\<not> isDownloadTool (DeleteGlob g)"
  by (simp_all add: isNewURL_def isDownloadTool_def)

lemma isHttpsGet_simps [simp]:
  "isHttpsGet (HttpsGet u hs n)" "\<not> isHttpsGet (LoggerInfo s)" "\<not> isHttpsGet (LoggerWarning s)"
  "\<not> isHttpsGet (CoreWarning s)" "\<not> isHttpsGet (GetProxyUrl u)" "\<not> isHttpsGet (NewURL u)"
  "\<not> isHttpsGet (ExtractTarZst r tv)" "\<not> isHttpsGet (DownloadTool u d a hs)"
  "\<not> isHttpsGet (TarExtract p m tv)" "\<not> isHttpsGet (DeleteGlob g)"
  by (simp_all add: isHttpsGet_def)

lemma statusReportOf_simps [simp]:
  "combinedDurationMs (statusReportOf m u d) = combinedDurationMs d"
  "downloadDurationMs (statusReportOf m u d) = downloadDurationMs d"
  "extractionDurationMs (statusReportOf m u d) = extractionDurationMs d"
  "streamExtraction (statusReportOf m u d) = streamExtraction d"
  "compressionMethod (statusReportOf m u d) = m"
  "toolsUrl (statusReportOf m u d) = u"
  "zstdFailureReason (statusReportOf m u d) = None"
  by (simp_all add: statusReportOf_def)

lemma Math_round_nonneg: "0 \<le> x \<Longrightarrow> 0 \<le> Math_round x"
  by (simp add: Math_round_def)

lemma monotonic_le:
  "monotonic env \<Longrightarrow> i \<le> j \<Longrightarrow> performance_now env i \<le> performance_now env j"
  by (induction j) (auto simp add: monotonic_def le_Suc_eq intro: order_trans)

subsection \<open>The streaming strategy\<close>

text \<open>
  What the strategy answers does not depend on the world it starts in; it reads the URL
  once, calls no download tool and reads neither the clock nor an identifier.
\<close>

lemma streaming_outcome:
  "fst (downloadAndExtractZstdWithStreaming env url a h tv w) =
     (case new_URL env url of
        Inl e \<Rightarrow> Throw e
      | Inr u \<Rightarrow>
          (case https_get env (orElse (getProxyUrl env u) url) (requestHeaders a h)
                  STREAMING_HIGH_WATERMARK_BYTES of
             Pending \<Rightarrow> Pending
           | Throw e \<Rightarrow> Throw e
           | Return response \<Rightarrow>
               if statusCode response \<noteq> Some 200
               then Throw (statusCodeError url (statusCode response))
               else (case tar_extractTarZst env response tv of
                       Inl e \<Rightarrow> Throw e
                     | Inr p \<Rightarrow> Return p)))"
  by (simp add: downloadAndExtractZstdWithStreaming_def adjustUrlByProxy_def Let_def
      split: sum.splits option.splits outcome.splits)

lemma streaming_outcome_any_world:
  "fst (downloadAndExtractZstdWithStreaming env url a h tv w)
     = fst (downloadAndExtractZstdWithStreaming env url a h tv w')"
  by (simp add: downloadAndExtractZstdWithStreaming_def adjustUrlByProxy_def Let_def
      split: sum.splits option.splits outcome.splits)

lemma streaming_streamingAttempts:
  "streamingAttempts (trace (snd (downloadAndExtractZstdWithStreaming env url a h tv w)))
     = Suc (streamingAttempts (trace w))"
  by (simp add: downloadAndExtractZstdWithStreaming_def adjustUrlByProxy_def Let_def
      split: sum.splits option.splits outcome.splits)

lemma streaming_downloadFirstAttempts:
  "downloadFirstAttempts (trace (snd (downloadAndExtractZstdWithStreaming env url a h tv w)))
     = downloadFirstAttempts (trace w)"
  by (simp add: downloadAndExtractZstdWithStreaming_def adjustUrlByProxy_def Let_def
      split: sum.splits option.splits outcome.splits)

lemma streaming_ticks:
  "ticks (snd (downloadAndExtractZstdWithStreaming env url a h tv w)) = ticks w"
  by (simp add: downloadAndExtractZstdWithStreaming_def adjustUrlByProxy_def Let_def
      split: sum.splits option.splits outcome.splits)

lemma streaming_draws:
  "draws (snd (downloadAndExtractZstdWithStreaming env url a h tv w)) = draws w"
  by (simp add: downloadAndExtractZstdWithStreaming_def adjustUrlByProxy_def Let_def
      split: sum.splits option.splits outcome.splits)

lemma streaming_trace:
  assumes "new_URL env url = Inr u"
  shows "trace (snd (downloadAndExtractZstdWithStreaming env url a h tv w)) =
     trace w @ [NewURL url, GetProxyUrl u,
       HttpsGet (orElse (getProxyUrl env u) url) (requestHeaders a h) STREAMING_HIGH_WATERMARK_BYTES]
     @ (case https_get env (orElse (getProxyUrl env u) url) (requestHeaders a h)
               STREAMING_HIGH_WATERMARK_BYTES of
          Return response \<Rightarrow>
            if statusCode response = Some 200 then [ExtractTarZst response tv] else []
        | _ \<Rightarrow> [])"
  using assms
  by (simp add: downloadAndExtractZstdWithStreaming_def adjustUrlByProxy_def Let_def
      split: sum.splits option.splits outcome.splits)



subsection \<open>The download-first strategy\<close>

lemma cleanUpGlob_returns: "fst (cleanUpGlob env glob name w) = Inr ()"
  by (simp add: cleanUpGlob_def Let_def split: sum.splits)

lemma cleanUpGlob_world [simp]:
  "ticks (snd (cleanUpGlob env glob name w)) = ticks w"
  "draws (snd (cleanUpGlob env glob name w)) = draws w"
  "streamingAttempts (trace (snd (cleanUpGlob env glob name w))) = streamingAttempts (trace w)"
  "downloadFirstAttempts (trace (snd (cleanUpGlob env glob name w))) = downloadFirstAttempts (trace w)"
  by (simp_all add: cleanUpGlob_def Let_def split: sum.splits)

lemma finallyCleanUp_fst: "fst (finallyCleanUp env archive r) = fst r"
  by (cases r; cases "fst r")
     (simp_all add: finallyCleanUp_def case_prod_beta cleanUpGlob_returns split: sum.splits)

lemma finallyCleanUp_world [simp]:
  "ticks (snd (finallyCleanUp env archive r)) = ticks (snd r)"
  "draws (snd (finallyCleanUp env archive r)) = draws (snd r)"
  "streamingAttempts (trace (snd (finallyCleanUp env archive r))) = streamingAttempts (trace (snd r))"
  "downloadFirstAttempts (trace (snd (finallyCleanUp env archive r))) = downloadFirstAttempts (trace (snd r))"
  by (cases r; cases "fst r"; simp add: finallyCleanUp_def case_prod_beta split: sum.splits)+

lemma extractArchive_world [simp]:
  "streamingAttempts (trace (snd (extractArchive env archive m tv w))) = streamingAttempts (trace w)"
  "downloadFirstAttempts (trace (snd (extractArchive env archive m tv w))) = downloadFirstAttempts (trace w)"
  "draws (snd (extractArchive env archive m tv w)) = draws w"
  by (simp_all add: extractArchive_def Let_def case_prod_beta split: sum.splits)

lemma extractArchive_fst:
  "fst (extractArchive env archive m tv w) =
     (case tar_extract env archive m tv of
        Inl e \<Rightarrow> Throw e
      | Inr extracted \<Rightarrow>
          Return (extracted, Math_round (performance_now env (Suc (ticks w)) - performance_now env (ticks w))))"
  by (simp add: extractArchive_def Let_def case_prod_beta split: sum.splits)

lemma extractArchive_ticks:
  "ticks (snd (extractArchive env archive m tv w)) =
     (case tar_extract env archive m tv of Inl e \<Rightarrow> Suc (ticks w) | Inr x \<Rightarrow> Suc (Suc (ticks w)))"
  by (simp add: extractArchive_def Let_def case_prod_beta split: sum.splits)

lemma downloadFirst_streamingAttempts:
  "streamingAttempts (trace (snd (downloadFirst env url a h tv dir m w)))
     = streamingAttempts (trace w)"
  by (simp add: downloadFirst_def Let_def case_prod_beta split: sum.splits outcome.splits)

lemma downloadFirst_downloadFirstAttempts:
  "downloadFirstAttempts (trace (snd (downloadFirst env url a h tv dir m w)))
     = Suc (downloadFirstAttempts (trace w))"
  by (simp add: downloadFirst_def Let_def case_prod_beta split: sum.splits outcome.splits)

lemma downloadFirst_fst:
  "fst (downloadFirst env url a h tv dir m w) =
     (case toolcache_downloadTool env url (path_join env dir (uuidV4 env (draws w))) a h of
        Inl e \<Rightarrow> Throw e
      | Inr archive \<Rightarrow>
          (case tar_extract env archive m tv of
             Inl e \<Rightarrow> Throw e
           | Inr extracted \<Rightarrow>
               Return \<lparr> extractedBundlePath = extracted,
                 statusReport = statusReportOf m (sanitizeUrlForStatusReport url)
                   (makeDownloadFirstToolsDownloadDurations
                      (Math_round (performance_now env (ticks w + 1) - performance_now env (ticks w)))
                      (Math_round (performance_now env (ticks w + 3)
                         - performance_now env (ticks w + 2)))) \<rparr>))"
proof (cases "toolcache_downloadTool env url (path_join env dir (uuidV4 env (draws w))) a h")
  case (Inl e)
  then show ?thesis
    by (simp add: downloadFirst_def Let_def case_prod_beta)
next
  case (Inr archive)
  have "fst (finallyCleanUp env archive (extractArchive env archive m tv w')) =
          fst (extractArchive env archive m tv w')" for w'
    by (rule finallyCleanUp_fst)
  with Inr show ?thesis
    by (simp add: downloadFirst_def Let_def case_prod_beta extractArchive_fst numeral_3_eq_3
        split: sum.splits outcome.splits)
qed

lemma downloadFirst_result_any_trace:
  "ticks w = ticks w' \<Longrightarrow> draws w = draws w' \<Longrightarrow>
   fst (downloadFirst env url a h tv dir m w) = fst (downloadFirst env url a h tv dir m w')"
  by (simp add: downloadFirst_fst split: sum.splits)

lemma downloadFirst_ticks:
  "fst (downloadFirst env url a h tv dir m w) = Return r \<Longrightarrow>
   ticks (snd (downloadFirst env url a h tv dir m w)) = ticks w + 4"
  by (auto simp add: downloadFirst_def Let_def case_prod_beta extractArchive_ticks
      finallyCleanUp_fst extractArchive_fst split: sum.splits outcome.splits)

lemma downloadFirst_Return:
  assumes "downloadFirst env url a h tv dir m w = (Return r, w')"
  shows "ticks w' = ticks w + 4"
    and "\<exists>p. r = \<lparr> extractedBundlePath = p,
            statusReport = statusReportOf m (sanitizeUrlForStatusReport url)
              (makeDownloadFirstToolsDownloadDurations
                 (Math_round (performance_now env (ticks w + 1) - performance_now env (ticks w)))
                 (Math_round (performance_now env (ticks w + 3) - performance_now env (ticks w + 2)))) \<rparr>"
proof -
  from assms have f: "fst (downloadFirst env url a h tv dir m w) = Return r"
    and s: "snd (downloadFirst env url a h tv dir m w) = w'"
    by simp_all
  from downloadFirst_ticks [OF f] s show "ticks w' = ticks w + 4" by simp
  from f show "\<exists>p. r = \<lparr> extractedBundlePath = p,
            statusReport = statusReportOf m (sanitizeUrlForStatusReport url)
              (makeDownloadFirstToolsDownloadDurations
                 (Math_round (performance_now env (ticks w + 1) - performance_now env (ticks w)))
                 (Math_round (performance_now env (ticks w + 3) - performance_now env (ticks w + 2)))) \<rparr>"
    by (auto simp add: downloadFirst_fst split: sum.splits)
qed

lemma downloadFirst_trace:
  assumes "toolcache_downloadTool env url (path_join env dir (uuidV4 env (draws w))) a h = Inr archive"
  shows "trace (snd (downloadFirst env url a h tv dir m w)) =
     trace w
     @ [DownloadTool url (path_join env dir (uuidV4 env (draws w))) a h,
        LoggerInfo (finishedMessage ''downloading'' archive (formatDuration env
          (Math_round (performance_now env (ticks w + 1) - performance_now env (ticks w))))),
        LoggerInfo extractingMessage,
        TarExtract archive m tv]
     @ (case tar_extract env archive m tv of
          Inl e \<Rightarrow> []
        | Inr p \<Rightarrow> [LoggerInfo (finishedMessage ''extracting'' p (formatDuration env
            (Math_round (performance_now env (ticks w + 3) - performance_now env (ticks w + 2)))))])
     @ [DeleteGlob archive]
     @ (case fs_delete env archive of
          Inl e \<Rightarrow> [LoggerWarning (cleanUpFailureMessage env archiveName e)]
        | Inr u \<Rightarrow> [])"
  using assms
  by (simp add: downloadFirst_def finallyCleanUp_def extractArchive_def cleanUpGlob_def
      Let_def case_prod_beta numeral_3_eq_3 split: sum.splits outcome.splits)

subsection \<open>The orchestrator\<close>

text \<open>A run of the orchestrator has one of four shapes.\<close>

lemma downloadAndExtract_unfold:
  "downloadAndExtract env url a h tv dir w =
     (case tar_inferCompressionMethod env url of
        Inl e \<Rightarrow> (Throw e, emit (LoggerInfo (downloadingMessage url)) w)
      | Inr m \<Rightarrow>
          if m = ''zstd'' \<and> process_platform env = ''linux'' then
            (case downloadAndExtractZstdWithStreaming env url a h tv (streamingStart env url w) of
               (Return p, w') \<Rightarrow>
                 (Return \<lparr> extractedBundlePath = p,
                    statusReport = statusReportOf m (sanitizeUrlForStatusReport url)
                      (makeStreamedToolsDownloadDurations
                         (Math_round (performance_now env (ticks w') - performance_now env (ticks w)))) \<rparr>,
                  emit (LoggerInfo (finishedMessage ''downloading and extracting'' p
                    (formatDuration env
                       (Math_round (performance_now env (ticks w') - performance_now env (ticks w))))))
                    (snd (now env w')))
             | (Throw e, w') \<Rightarrow>
                 downloadFirst env url a h tv dir m
                   (emit (CoreWarning (util_getErrorMessage env e))
                      (emit (CoreWarning fallbackWarning) w'))
             | (Pending, w') \<Rightarrow> (Pending, w'))
          else downloadFirst env url a h tv dir m (emit (LoggerInfo (downloadingMessage url)) w))"
  by (simp add: downloadAndExtract_def streamingStart_def Let_def case_prod_beta
      split: sum.splits outcome.splits)

text \<open>A result that comes with a call of the download tool comes from the download-first strategy.\<close>

lemma downloadAndExtract_by_downloadFirst:
  assumes "downloadAndExtract env url a h tv dir w = (Return r, w')"
    and "downloadFirstAttempts (trace w') \<noteq> downloadFirstAttempts (trace w)"
  shows "\<exists>m w0. downloadFirst env url a h tv dir m w0 = (Return r, w')"
proof (cases "tar_inferCompressionMethod env url")
  case (Inl e)
  with assms show ?thesis by (simp add: downloadAndExtract_unfold)
next
  case (Inr m)
  show ?thesis
  proof (cases "m = ''zstd'' \<and> process_platform env = ''linux''")
    case False
    with Inr assms show ?thesis
      by (auto simp add: downloadAndExtract_unfold)
  next
    case True
    obtain res w1 where run:
      "downloadAndExtractZstdWithStreaming env url a h tv (streamingStart env url w) = (res, w1)"
      by (cases "downloadAndExtractZstdWithStreaming env url a h tv (streamingStart env url w)")
    from streaming_downloadFirstAttempts [of env url a h tv "streamingStart env url w"] run
    have same: "downloadFirstAttempts (trace w1) = downloadFirstAttempts (trace w)"
      by (simp add: streamingStart_def)
    show ?thesis
    proof (cases res)
      case (Return p)
      with Inr True run assms same show ?thesis
        by (auto simp add: downloadAndExtract_unfold)
    next
      case (Throw e)
      with Inr True run assms show ?thesis
        by (auto simp add: downloadAndExtract_unfold)
    next
      case Pending
      with Inr True run assms show ?thesis
        by (simp add: downloadAndExtract_unfold)
    qed
  qed
qed

subsection \<open>The sanitizer and the concrete environment\<close>

lemma sanitize_trusted:
  "sanitizeUrlForStatusReport url = (if hasTrustedPrefix url then url else ''sanitized-value'')"
  by (simp add: sanitizeUrlForStatusReport_def hasTrustedPrefix_def trustedPrefixes_def
      list_ex_iff)

lemma trustedPrefixes_eq:
  "trustedPrefixes = [''https://github.com/github/codeql-action/releases/download/'',
     ''https://github.com/dsp-testing/codeql-cli-nightlies/releases/download/'']"
  by (simp add: trustedPrefixes_def trustedRepos_def releasePrefix_def)

lemma demoEnv_simps [simp]:
  "process_platform (demoEnv c x d) = ''linux''"
  "performance_now (demoEnv c x d) n = real n * 5 / 2"
  "uuidV4 (demoEnv c x d) n = ''id'' @ showNat n"
  "path_join (demoEnv c x d) dir file = dir @ ''/'' @ file"
  "formatDuration (demoEnv c x d) ms = showInt ms @ ''ms''"
  "tar_inferCompressionMethod (demoEnv c x d) = classify demoKnown"
  "new_URL (demoEnv c x d) url = Inr url"
  "getProxyUrl (demoEnv c x d) url = None"
  "https_get (demoEnv c x d) url hs mark = Return \<lparr> statusCode = Some c, body = [] \<rparr>"
  "tar_extractTarZst (demoEnv c x d) r tv = Inr ''/ql''"
  "toolcache_downloadTool (demoEnv c x d) url dest a hs = Inr dest"
  "tar_extract (demoEnv c x d) p m tv = (if x then Inr ''/ql'' else Inl (Error ''tar''))"
  "fs_delete (demoEnv c x d) p = (if d then Inr () else Inl (Error ''busy''))"
  "cleanUpFailureMessage (demoEnv c x d) name e = ''Failed to clean up '' @ name"
  by (simp_all add: demoEnv_def)

lemma demoWorld_simps [simp]:
  "trace demoWorld = []" "ticks demoWorld = 0" "draws demoWorld = 0"
  by (simp_all add: demoWorld_def)

lemma classify_demo:
  "classify demoKnown zstUrl = Inr ''zstd''"
  "classify demoKnown gzUrl = Inr ''gzip''"
  by (simp_all add: classify_def demoKnown_def zstUrl_def gzUrl_def suffix_to_prefix)

lemma sanitize_demo:
  "sanitizeUrlForStatusReport zstUrl = ''sanitized-value''"
  "sanitizeUrlForStatusReport gzUrl = ''sanitized-value''"
  by (simp_all add: sanitize_trusted hasTrustedPrefix_def trustedPrefixes_eq zstUrl_def gzUrl_def)

lemma Math_round_demo: "Math_round (5 / 2) = 3"
  by (simp add: Math_round_def)



lemma demo_gz_result:
  "fst (downloadAndExtract (demoEnv 200 True True) gzUrl None [] None ''/tmp'' demoWorld) =
     Return \<lparr> extractedBundlePath = ''/ql'',
       statusReport = \<lparr> combinedDurationMs = 6, downloadDurationMs = Some 3,
         extractionDurationMs = Some 3, streamExtraction = False,
         compressionMethod = ''gzip'', toolsUrl = ''sanitized-value'',
         zstdFailureReason = None \<rparr> \<rparr>"
  by (simp add: downloadAndExtract_unfold classify_demo downloadFirst_fst sanitize_demo
      statusReportOf_def makeDownloadFirstToolsDownloadDurations_def Math_round_def)

lemma demo_gz_world:
  "ticks (snd (downloadAndExtract (demoEnv 200 True True) gzUrl None [] None ''/tmp'' demoWorld)) = 4"
  "downloadFirstAttempts (trace (snd (downloadAndExtract (demoEnv 200 True True) gzUrl None []
     None ''/tmp'' demoWorld))) = 1"
proof -
  let ?E = "demoEnv 200 True True :: nat env"
  let ?w = "emit (LoggerInfo (downloadingMessage gzUrl)) demoWorld :: nat world"
  have eq: "downloadAndExtract ?E gzUrl None [] None ''/tmp'' demoWorld
              = downloadFirst ?E gzUrl None [] None ''/tmp'' ''gzip'' ?w"
    by (simp add: downloadAndExtract_unfold classify_demo)
  have "fst (downloadFirst ?E gzUrl None [] None ''/tmp'' ''gzip'' ?w) =
     Return \<lparr> extractedBundlePath = ''/ql'',
       statusReport = \<lparr> combinedDurationMs = 6, downloadDurationMs = Some 3,
         extractionDurationMs = Some 3, streamExtraction = False,
         compressionMethod = ''gzip'', toolsUrl = ''sanitized-value'',
         zstdFailureReason = None \<rparr> \<rparr>"
    using demo_gz_result by (simp add: eq)
  from downloadFirst_ticks [OF this]
  show "ticks (snd (downloadAndExtract ?E gzUrl None [] None ''/tmp'' demoWorld)) = 4"
    by (simp add: eq)
  show "downloadFirstAttempts (trace (snd (downloadAndExtract ?E gzUrl None [] None ''/tmp''
          demoWorld))) = 1"
    by (simp add: eq downloadFirst_downloadFirstAttempts)
qed

section \<open>The claims\<close>

text \<open>
  C1. The claim asks for the fallback after a streaming attempt that fails for any reason,
  an error of the transport included. On the code it fails there: the promise around
  \<open>https.get\<close> is resolved by the callback and rejected by nothing, so when the host of
  a zstd bundle cannot be reached on Linux the attempt neither returns nor throws. The
  run stays pending after the request: no warning is logged and the download tool is
  never called.
\<close>

theorem transport_error_no_fallback:
  "tar_inferCompressionMethod unreachableEnv zstUrl = Inr ''zstd''
   \<and> process_platform unreachableEnv = ''linux''
   \<and> fst (downloadAndExtract unreachableEnv zstUrl None [] None ''/tmp'' demoWorld) = Pending
   \<and> trace (snd (downloadAndExtract unreachableEnv zstUrl None [] None ''/tmp'' demoWorld))
       = [LoggerInfo (downloadingMessage zstUrl), LoggerInfo streamingMessage,
          NewURL zstUrl, GetProxyUrl zstUrl,
          HttpsGet zstUrl (requestHeaders None []) STREAMING_HIGH_WATERMARK_BYTES]
   \<and> downloadFirstAttempts
         (trace (snd (downloadAndExtract unreachableEnv zstUrl None [] None ''/tmp'' demoWorld))) = 0"
proof -
  let ?run = "downloadAndExtractZstdWithStreaming unreachableEnv zstUrl None [] None
                (streamingStart unreachableEnv zstUrl demoWorld)"
  have c: "tar_inferCompressionMethod unreachableEnv zstUrl = Inr ''zstd''"
    and p: "process_platform unreachableEnv = ''linux''"
    and u: "new_URL unreachableEnv zstUrl = Inr zstUrl"
    and g: "getProxyUrl unreachableEnv zstUrl = None"
    and n: "https_get unreachableEnv zstUrl (requestHeaders None []) STREAMING_HIGH_WATERMARK_BYTES
              = Pending"
    by (simp_all add: unreachableEnv_def classify_demo)
  have f: "fst ?run = Pending"
    by (simp add: streaming_outcome u g n orElse_def)
  have t: "trace (snd ?run) = [LoggerInfo (downloadingMessage zstUrl), LoggerInfo streamingMessage,
          NewURL zstUrl, GetProxyUrl zstUrl,
          HttpsGet zstUrl (requestHeaders None []) STREAMING_HIGH_WATERMARK_BYTES]"
    by (simp add: streaming_trace [OF u] g n orElse_def streamingStart_def)
  obtain w1 where run: "?run = (Pending, w1)"
    and w1: "trace w1 = [LoggerInfo (downloadingMessage zstUrl), LoggerInfo streamingMessage,
          NewURL zstUrl, GetProxyUrl zstUrl,
          HttpsGet zstUrl (requestHeaders None []) STREAMING_HIGH_WATERMARK_BYTES]"
    using f t by (cases ?run) simp
  have "downloadAndExtract unreachableEnv zstUrl None [] None ''/tmp'' demoWorld = (Pending, w1)"
    by (simp add: downloadAndExtract_unfold c p run)
  with c p w1 show ?thesis
    by simp
qed

text \<open>
  The failures that the streaming strategy throws do fall back. When it throws an error
  \<open>e\<close> (the URL does not parse, \<open>https.get\<close> throws, the status is not 200, the
  extraction is rejected), \<open>downloadAndExtract\<close> logs the fallback warning and then a
  warning with the message of \<open>e\<close>, and continues as the download-first strategy from
  there: the outcome and the final world are those of that one run. The result is the one
  the download-first strategy alone gives when started one reading of the clock later, and
  the run counts exactly one streaming attempt and exactly one download-first attempt.
\<close>

theorem streaming_failure_falls_back:
  assumes "tar_inferCompressionMethod env url = Inr ''zstd''"
    and "process_platform env = ''linux''"
    and "downloadAndExtractZstdWithStreaming env url a h tv (streamingStart env url w) = (Throw e, w')"
  shows "downloadAndExtract env url a h tv dir w
           = downloadFirst env url a h tv dir ''zstd''
               (emit (CoreWarning (util_getErrorMessage env e)) (emit (CoreWarning fallbackWarning) w'))
    \<and> fst (downloadAndExtract env url a h tv dir w)
           = fst (downloadFirst env url a h tv dir ''zstd'' (w\<lparr>ticks := Suc (ticks w)\<rparr>))
    \<and> streamingAttempts (trace (snd (downloadAndExtract env url a h tv dir w)))
           = Suc (streamingAttempts (trace w))
    \<and> downloadFirstAttempts (trace (snd (downloadAndExtract env url a h tv dir w)))
           = Suc (downloadFirstAttempts (trace w))"
proof -
  let ?w = "emit (CoreWarning (util_getErrorMessage env e)) (emit (CoreWarning fallbackWarning) w')"
  have run: "downloadAndExtract env url a h tv dir w = downloadFirst env url a h tv dir ''zstd'' ?w"
    using assms by (simp add: downloadAndExtract_unfold)
  from streaming_ticks [of env url a h tv "streamingStart env url w"]
       streaming_draws [of env url a h tv "streamingStart env url w"] assms(3)
  have world: "ticks w' = Suc (ticks w)" "draws w' = draws w"
    by (simp_all add: streamingStart_def)
  from streaming_streamingAttempts [of env url a h tv "streamingStart env url w"]
       streaming_downloadFirstAttempts [of env url a h tv "streamingStart env url w"] assms(3)
  have counts: "streamingAttempts (trace w') = Suc (streamingAttempts (trace w))"
    "downloadFirstAttempts (trace w') = downloadFirstAttempts (trace w)"
    by (simp_all add: streamingStart_def)
  have "fst (downloadFirst env url a h tv dir ''zstd'' ?w)
          = fst (downloadFirst env url a h tv dir ''zstd'' (w\<lparr>ticks := Suc (ticks w)\<rparr>))"
    by (rule downloadFirst_result_any_trace) (simp_all add: world)
  with run counts show ?thesis
    by (simp add: downloadFirst_streamingAttempts downloadFirst_downloadFirstAttempts)
qed

theorem streaming_failure_falls_back_witness:
  "tar_inferCompressionMethod (demoEnv 404 True True) zstUrl = Inr ''zstd''
   \<and> process_platform (demoEnv 404 True True) = ''linux''
   \<and> fst (downloadAndExtractZstdWithStreaming (demoEnv 404 True True) zstUrl None [] None
        (streamingStart (demoEnv 404 True True) zstUrl demoWorld))
       = Throw (statusCodeError zstUrl (Some 404))
   \<and> fst (downloadAndExtract (demoEnv 404 True True) zstUrl None [] None ''/tmp'' demoWorld)
       = fst (downloadFirst (demoEnv 404 True True) zstUrl None [] None ''/tmp'' ''zstd''
           (demoWorld\<lparr>ticks := Suc 0\<rparr>))
   \<and> streamingAttempts (trace (snd (downloadAndExtract (demoEnv 404 True True) zstUrl None []
        None ''/tmp'' demoWorld))) = Suc 0
   \<and> downloadFirstAttempts (trace (snd (downloadAndExtract (demoEnv 404 True True) zstUrl None []
        None ''/tmp'' demoWorld))) = Suc 0"
proof -
  let ?E = "demoEnv 404 True True :: nat env"
  let ?run = "downloadAndExtractZstdWithStreaming ?E zstUrl None [] None
                (streamingStart ?E zstUrl demoWorld)"
  have h1: "tar_inferCompressionMethod ?E zstUrl = Inr ''zstd''"
    by (simp add: classify_demo)
  have h2: "process_platform ?E = ''linux''"
    by simp
  have f: "fst ?run = Throw (statusCodeError zstUrl (Some 404))"
    by (simp add: streaming_outcome)
  then have h3: "?run = (Throw (statusCodeError zstUrl (Some 404)), snd ?run)"
    by (simp add: prod_eq_iff)
  note run = streaming_failure_falls_back [OF h1 h2 h3, of "''/tmp''",
      unfolded demoWorld_simps attempts_Cons(1,2)]
  from run h1 h2 f show ?thesis
    by blast
qed




text \<open>
  C3. When an acquisition that returns has called the download tool, that is, has used the
  download-first strategy, its report has \<open>streamExtraction = false\<close>, both phase durations
  are present, each is one rounding of the difference of two readings of the clock, and
  \<open>combinedDurationMs\<close> is their integer sum, with no further rounding.
\<close>

theorem downloadFirst_durations:
  assumes "downloadAndExtract env url a h tv dir w = (Return r, w')"
    and "downloadFirstAttempts (trace w') \<noteq> downloadFirstAttempts (trace w)"
  shows "streamExtraction (statusReport r) = False
    \<and> (\<exists>d x. downloadDurationMs (statusReport r) = Some d
          \<and> extractionDurationMs (statusReport r) = Some x
          \<and> combinedDurationMs (statusReport r) = d + x
          \<and> d = Math_round (performance_now env (ticks w' - 3) - performance_now env (ticks w' - 4))
          \<and> x = Math_round (performance_now env (ticks w' - 1) - performance_now env (ticks w' - 2)))"
proof -
  from downloadAndExtract_by_downloadFirst [OF assms]
  obtain m w0 where run: "downloadFirst env url a h tv dir m w0 = (Return r, w')"
    by blast
  from downloadFirst_Return [OF run]
  show ?thesis
    by (auto simp add: makeDownloadFirstToolsDownloadDurations_def add.commute)
qed

theorem downloadFirst_durations_witness:
  "fst (downloadAndExtract (demoEnv 200 True True) gzUrl None [] None ''/tmp'' demoWorld) =
     Return \<lparr> extractedBundlePath = ''/ql'',
       statusReport = \<lparr> combinedDurationMs = 6, downloadDurationMs = Some 3,
         extractionDurationMs = Some 3, streamExtraction = False,
         compressionMethod = ''gzip'', toolsUrl = ''sanitized-value'',
         zstdFailureReason = None \<rparr> \<rparr>
   \<and> downloadFirstAttempts (trace (snd (downloadAndExtract (demoEnv 200 True True) gzUrl None []
        None ''/tmp'' demoWorld))) \<noteq> downloadFirstAttempts (trace demoWorld)
   \<and> Math_round (performance_now (demoEnv 200 True True) 1
        - performance_now (demoEnv 200 True True) 0) = 3
   \<and> Math_round (performance_now (demoEnv 200 True True) 3
        - performance_now (demoEnv 200 True True) 2) = 3"
proof -
  let ?E = "demoEnv 200 True True :: nat env"
  let ?run = "downloadAndExtract ?E gzUrl None [] None ''/tmp'' demoWorld"
  let ?r = "\<lparr> extractedBundlePath = ''/ql'',
       statusReport = \<lparr> combinedDurationMs = 6, downloadDurationMs = Some 3,
         extractionDurationMs = Some 3, streamExtraction = False,
         compressionMethod = ''gzip'', toolsUrl = ''sanitized-value'',
         zstdFailureReason = None \<rparr> \<rparr>"
  have h1: "?run = (Return ?r, snd ?run)"
    by (simp add: prod_eq_iff demo_gz_result)
  have h2: "downloadFirstAttempts (trace (snd ?run)) \<noteq> downloadFirstAttempts (trace demoWorld)"
    by (simp add: demo_gz_world)
  from downloadFirst_durations [OF h1 h2]
  have "Math_round (performance_now ?E (ticks (snd ?run) - 3)
          - performance_now ?E (ticks (snd ?run) - 4)) = 3
      \<and> Math_round (performance_now ?E (ticks (snd ?run) - 1)
          - performance_now ?E (ticks (snd ?run) - 2)) = 3"
    by simp
  then have "Math_round (performance_now ?E 1 - performance_now ?E 0) = 3
      \<and> Math_round (performance_now ?E 3 - performance_now ?E 2) = 3"
    by (simp only: demo_gz_world) simp
  with demo_gz_result h2 show ?thesis
    by blast
qed

text \<open>
  C4. A run of \<open>downloadAndExtract\<close> makes one streaming attempt when the classified
  compression method is "zstd" and the platform is "linux", and none otherwise (also when
  the classification throws).
\<close>

theorem streaming_attempted_iff_eligible:
  "streamingAttempts (trace (snd (downloadAndExtract env url a h tv dir w))) =
     streamingAttempts (trace w)
       + (if tar_inferCompressionMethod env url = Inr ''zstd'' \<and> process_platform env = ''linux''
          then 1 else 0)"
proof (cases "tar_inferCompressionMethod env url")
  case (Inl e)
  then show ?thesis by (simp add: downloadAndExtract_unfold)
next
  case (Inr m)
  show ?thesis
  proof (cases "m = ''zstd'' \<and> process_platform env = ''linux''")
    case False
    with Inr show ?thesis
      by (auto simp add: downloadAndExtract_unfold downloadFirst_streamingAttempts)
  next
    case True
    obtain res w' where run:
      "downloadAndExtractZstdWithStreaming env url a h tv (streamingStart env url w) = (res, w')"
      by (cases "downloadAndExtractZstdWithStreaming env url a h tv (streamingStart env url w)")
    from streaming_streamingAttempts [of env url a h tv "streamingStart env url w"] run
    have "streamingAttempts (trace w') = Suc (streamingAttempts (trace w))"
      by (simp add: streamingStart_def)
    with Inr True run show ?thesis
      by (cases res) (simp_all add: downloadAndExtract_unfold downloadFirst_streamingAttempts)
  qed
qed

theorem streaming_attempted_iff_eligible_witness:
  "streamingAttempts (trace (snd (downloadAndExtract (demoEnv 200 True True) zstUrl None [] None
      ''/tmp'' demoWorld))) = 1
   \<and> streamingAttempts (trace (snd (downloadAndExtract (demoEnv 200 True True) gzUrl None [] None
      ''/tmp'' demoWorld))) = 0"
  using streaming_attempted_iff_eligible [of "demoEnv 200 True True" zstUrl None "[]" None "''/tmp''" demoWorld]
    streaming_attempted_iff_eligible [of "demoEnv 200 True True" gzUrl None "[]" None "''/tmp''" demoWorld]
  by (simp add: classify_demo)

text \<open>
  C5. For every URL, the sanitizer returns it unchanged if and only if it begins with
  one of the two hard-coded prefixes, and returns the placeholder "sanitized-value"
  otherwise. The placeholder is the one string that is returned unchanged without a
  trusted prefix; it is not a URL, and every other string is covered.
\<close>

theorem sanitize_unchanged_iff_trusted:
  assumes "url \<noteq> ''sanitized-value''"
  shows "(sanitizeUrlForStatusReport url = url
           \<longleftrightarrow> prefix ''https://github.com/github/codeql-action/releases/download/'' url
             \<or> prefix ''https://github.com/dsp-testing/codeql-cli-nightlies/releases/download/'' url)
    \<and> sanitizeUrlForStatusReport url =
         (if prefix ''https://github.com/github/codeql-action/releases/download/'' url
             \<or> prefix ''https://github.com/dsp-testing/codeql-cli-nightlies/releases/download/'' url
          then url else ''sanitized-value'')"
  using assms
  by (simp add: sanitizeUrlForStatusReport_def trustedRepos_def releasePrefix_def)

theorem sanitize_unchanged_iff_trusted_witness:
  "''https://github.com/github/codeql-action/releases/download/v1/b.tar.gz'' \<noteq> ''sanitized-value''
   \<and> ''https://evil.example/bundle.tar.gz'' \<noteq> ''sanitized-value''
   \<and> sanitizeUrlForStatusReport ''https://github.com/github/codeql-action/releases/download/v1/b.tar.gz''
       = ''https://github.com/github/codeql-action/releases/download/v1/b.tar.gz''
   \<and> sanitizeUrlForStatusReport ''https://evil.example/bundle.tar.gz'' = ''sanitized-value''
   \<and> sanitizeUrlForStatusReport ''https://evil.example/bundle.tar.gz''
       \<noteq> ''https://evil.example/bundle.tar.gz''"
proof -
  have h1: "''https://github.com/github/codeql-action/releases/download/v1/b.tar.gz''
      \<noteq> ''sanitized-value''"
    by simp
  have h2: "''https://evil.example/bundle.tar.gz'' \<noteq> ''sanitized-value''"
    by simp
  from sanitize_unchanged_iff_trusted [OF h1] sanitize_unchanged_iff_trusted [OF h2] h1 h2
  show ?thesis
    by simp
qed

text \<open>
  C6. In a download-first run whose download succeeded, the deletion of the archive is
  the next call after the extraction (and the line logged when it succeeded), whether the
  extraction succeeded or failed; a failed deletion adds one warning of the logger and
  nothing else. An error of the extraction is the error of the run whatever the deletion
  does, and a successful extraction gives a result whatever the deletion does.
\<close>

theorem archive_deleted_after_extraction:
  assumes "toolcache_downloadTool env url (path_join env dir (uuidV4 env (draws w))) a h = Inr archive"
  shows "trace (snd (downloadFirst env url a h tv dir m w)) =
       trace w
       @ [DownloadTool url (path_join env dir (uuidV4 env (draws w))) a h,
          LoggerInfo (finishedMessage ''downloading'' archive (formatDuration env
            (Math_round (performance_now env (ticks w + 1) - performance_now env (ticks w))))),
          LoggerInfo extractingMessage,
          TarExtract archive m tv]
       @ (case tar_extract env archive m tv of
            Inl e \<Rightarrow> []
          | Inr p \<Rightarrow> [LoggerInfo (finishedMessage ''extracting'' p (formatDuration env
              (Math_round (performance_now env (ticks w + 3) - performance_now env (ticks w + 2)))))])
       @ [DeleteGlob archive]
       @ (case fs_delete env archive of
            Inl e \<Rightarrow> [LoggerWarning (cleanUpFailureMessage env archiveName e)]
          | Inr u \<Rightarrow> [])
    \<and> (\<forall>e. tar_extract env archive m tv = Inl e
          \<longrightarrow> fst (downloadFirst env url a h tv dir m w) = Throw e)
    \<and> (\<forall>p. tar_extract env archive m tv = Inr p
          \<longrightarrow> (\<exists>r. fst (downloadFirst env url a h tv dir m w) = Return r \<and> extractedBundlePath r = p))"
  using assms downloadFirst_trace [OF assms, of tv m]
  by (simp add: downloadFirst_fst)

theorem archive_deleted_after_extraction_witness:
  "toolcache_downloadTool (demoEnv 200 False False) gzUrl
      (path_join (demoEnv 200 False False) ''/tmp'' (uuidV4 (demoEnv 200 False False) (draws demoWorld)))
      None [] = Inr ''/tmp/id0''
   \<and> tar_extract (demoEnv 200 False False) ''/tmp/id0'' ''gzip'' None = Inl (Error ''tar'')
   \<and> fs_delete (demoEnv 200 False False) ''/tmp/id0'' = Inl (Error ''busy'')
   \<and> fst (downloadFirst (demoEnv 200 False False) gzUrl None [] None ''/tmp'' ''gzip'' demoWorld)
       = Throw (Error ''tar'')
   \<and> trace (snd (downloadFirst (demoEnv 200 False False) gzUrl None [] None ''/tmp'' ''gzip''
        demoWorld))
       = [DownloadTool gzUrl ''/tmp/id0'' None [],
          LoggerInfo (finishedMessage ''downloading'' ''/tmp/id0'' (showInt 3 @ ''ms'')),
          LoggerInfo extractingMessage,
          TarExtract ''/tmp/id0'' ''gzip'' None,
          DeleteGlob ''/tmp/id0'',
          LoggerWarning (''Failed to clean up '' @ archiveName)]"
proof -
  let ?E = "demoEnv 200 False False :: nat env"
  have h: "toolcache_downloadTool ?E gzUrl
      (path_join ?E ''/tmp'' (uuidV4 ?E (draws demoWorld))) None [] = Inr ''/tmp/id0''"
    by (simp add: showNat.simps)
  have x: "tar_extract ?E ''/tmp/id0'' ''gzip'' None = Inl (Error ''tar'')"
    and d: "fs_delete ?E ''/tmp/id0'' = Inl (Error ''busy'')"
    by simp_all
  note run = archive_deleted_after_extraction [OF h, of None "''gzip''"]
  from run x have o: "fst (downloadFirst ?E gzUrl None [] None ''/tmp'' ''gzip'' demoWorld)
      = Throw (Error ''tar'')"
    by blast
  from run have "trace (snd (downloadFirst ?E gzUrl None [] None ''/tmp'' ''gzip'' demoWorld))
       = [DownloadTool gzUrl ''/tmp/id0'' None [],
          LoggerInfo (finishedMessage ''downloading'' ''/tmp/id0'' (showInt 3 @ ''ms'')),
          LoggerInfo extractingMessage,
          TarExtract ''/tmp/id0'' ''gzip'' None,
          DeleteGlob ''/tmp/id0'',
          LoggerWarning (''Failed to clean up '' @ archiveName)]"
    by (simp add: showNat.simps Math_round_def)
  with h x d o show ?thesis
    by blast
qed

text \<open>
  C7. When the classifier is the one of the specification and no known suffix ends the
  URL, the classification fails with \<open>UnrecognizedFormat\<close> and \<open>downloadAndExtract\<close>
  throws that error at once: the only thing it has done is to log its first line, so
  neither strategy is attempted.
\<close>

theorem unrecognized_format_is_fatal:
  assumes "tar_inferCompressionMethod env url = classify known url"
    and "\<forall>sfx m. (sfx, m) \<in> set known \<longrightarrow> \<not> suffix sfx url"
  shows "classify known url = Inl UnrecognizedFormat
    \<and> downloadAndExtract env url a h tv dir w
        = (Throw UnrecognizedFormat, emit (LoggerInfo (downloadingMessage url)) w)"
proof -
  from assms(2) have "find (\<lambda>(sfx, m). suffix sfx url) known = None"
    by (auto simp add: find_None_iff)
  then have "classify known url = Inl UnrecognizedFormat"
    by (simp add: classify_def)
  with assms(1) show ?thesis
    by (simp add: downloadAndExtract_unfold)
qed

theorem unrecognized_format_is_fatal_witness:
  "tar_inferCompressionMethod (demoEnv 200 True True) zipUrl = classify demoKnown zipUrl
   \<and> \<not> suffix ''.tar.gz'' zipUrl \<and> \<not> suffix ''.tar.zst'' zipUrl
   \<and> classify demoKnown zipUrl = Inl UnrecognizedFormat
   \<and> downloadAndExtract (demoEnv 200 True True) zipUrl None [] None ''/tmp'' demoWorld
       = (Throw UnrecognizedFormat, emit (LoggerInfo (downloadingMessage zipUrl)) demoWorld)"
proof -
  let ?E = "demoEnv 200 True True :: nat env"
  have h1: "tar_inferCompressionMethod ?E zipUrl = classify demoKnown zipUrl"
    by simp
  have s: "\<not> suffix ''.tar.gz'' zipUrl" "\<not> suffix ''.tar.zst'' zipUrl"
    by (simp_all add: zipUrl_def suffix_to_prefix)
  then have h2: "\<forall>sfx m. (sfx, m) \<in> set demoKnown \<longrightarrow> \<not> suffix sfx zipUrl"
    by (auto simp add: demoKnown_def)
  from unrecognized_format_is_fatal [OF h1 h2, of None "[]" None "''/tmp''" demoWorld] h1 s
  show ?thesis
    by blast
qed



text \<open>
  C9. When the request is eligible, the streaming strategy returns a path and the clock
  is monotonic, \<open>downloadAndExtract\<close> returns that path with a report that has
  \<open>streamExtraction = true\<close>, no \<open>downloadDurationMs\<close>, no \<open>extractionDurationMs\<close>, and a
  \<open>combinedDurationMs\<close> that is not negative.
\<close>

theorem streaming_success_report:
  assumes "tar_inferCompressionMethod env url = Inr ''zstd''"
    and "process_platform env = ''linux''"
    and "fst (downloadAndExtractZstdWithStreaming env url a h tv w0) = Return p"
    and "monotonic env"
  shows "fst (downloadAndExtract env url a h tv dir w) =
           Return \<lparr> extractedBundlePath = p,
             statusReport = \<lparr> combinedDurationMs =
                 Math_round (performance_now env (Suc (ticks w)) - performance_now env (ticks w)),
               downloadDurationMs = None, extractionDurationMs = None, streamExtraction = True,
               compressionMethod = ''zstd'', toolsUrl = sanitizeUrlForStatusReport url,
               zstdFailureReason = None \<rparr> \<rparr>
    \<and> 0 \<le> Math_round (performance_now env (Suc (ticks w)) - performance_now env (ticks w))"
proof -
  obtain res w1 where run:
    "downloadAndExtractZstdWithStreaming env url a h tv (streamingStart env url w) = (res, w1)"
    by (cases "downloadAndExtractZstdWithStreaming env url a h tv (streamingStart env url w)")
  from streaming_outcome_any_world [of env url a h tv "streamingStart env url w" w0] run assms(3)
  have res: "res = Return p" by simp
  from streaming_ticks [of env url a h tv "streamingStart env url w"] run
  have t: "ticks w1 = Suc (ticks w)" by (simp add: streamingStart_def)
  from assms(4) have "performance_now env (ticks w) \<le> performance_now env (Suc (ticks w))"
    by (simp add: monotonic_def)
  then have "0 \<le> Math_round (performance_now env (Suc (ticks w)) - performance_now env (ticks w))"
    by (simp add: Math_round_nonneg)
  with assms(1,2) run res t show ?thesis
    by (simp add: downloadAndExtract_unfold statusReportOf_def makeStreamedToolsDownloadDurations_def)
qed

theorem streaming_success_report_witness:
  "tar_inferCompressionMethod (demoEnv 200 True True) zstUrl = Inr ''zstd''
   \<and> process_platform (demoEnv 200 True True) = ''linux''
   \<and> fst (downloadAndExtractZstdWithStreaming (demoEnv 200 True True) zstUrl None [] None
        demoWorld) = Return ''/ql''
   \<and> monotonic (demoEnv 200 True True)
   \<and> fst (downloadAndExtract (demoEnv 200 True True) zstUrl None [] None ''/tmp'' demoWorld) =
       Return \<lparr> extractedBundlePath = ''/ql'',
         statusReport = \<lparr> combinedDurationMs = 3, downloadDurationMs = None,
           extractionDurationMs = None, streamExtraction = True,
           compressionMethod = ''zstd'', toolsUrl = ''sanitized-value'',
           zstdFailureReason = None \<rparr> \<rparr>"
proof -
  let ?E = "demoEnv 200 True True :: nat env"
  have h1: "tar_inferCompressionMethod ?E zstUrl = Inr ''zstd''"
    by (simp add: classify_demo)
  have h2: "process_platform ?E = ''linux''"
    by simp
  have h3: "fst (downloadAndExtractZstdWithStreaming ?E zstUrl None [] None demoWorld)
      = Return ''/ql''"
    by (simp add: streaming_outcome)
  have h4: "monotonic ?E"
    by (simp add: monotonic_def)
  from streaming_success_report [OF h1 h2 h3 h4, of "''/tmp''" demoWorld] h1 h2 h3 h4
  show ?thesis
    by (simp add: Math_round_def sanitize_demo)
qed

text \<open>
  C10. With an eligible request and \<open>tarVersion\<close> undefined, \<open>downloadAndExtract\<close> does not
  reject the request: it makes the streaming attempt, and when the server answers 200 the
  streaming extractor is called with the undefined \<open>tarVersion\<close>.
\<close>

theorem undefined_tarVersion_forwarded:
  assumes "tar_inferCompressionMethod env url = Inr ''zstd''"
    and "process_platform env = ''linux''"
    and "new_URL env url = Inr u"
    and "https_get env (orElse (getProxyUrl env u) url) (requestHeaders a h)
           STREAMING_HIGH_WATERMARK_BYTES = Return response"
    and "statusCode response = Some 200"
  shows "streamingAttempts (trace (snd (downloadAndExtract env url a h None dir w)))
           = Suc (streamingAttempts (trace w))
    \<and> ExtractTarZst response None \<in> set (trace (snd (downloadAndExtract env url a h None dir w)))"
proof -
  let ?tv = "None :: 'a option"
  obtain res w1 where run:
    "downloadAndExtractZstdWithStreaming env url a h ?tv (streamingStart env url w) = (res, w1)"
    by (cases "downloadAndExtractZstdWithStreaming env url a h ?tv (streamingStart env url w)")
  from streaming_trace [OF assms(3), of a h ?tv "streamingStart env url w"] run assms(4,5)
  have ev: "ExtractTarZst response None \<in> set (trace w1)"
    by simp
  from streaming_streamingAttempts [of env url a h ?tv "streamingStart env url w"] run
  have n: "streamingAttempts (trace w1) = Suc (streamingAttempts (trace w))"
    by (simp add: streamingStart_def)
  have keep: "set (trace w0) \<subseteq> set (trace (snd (downloadFirst env url a h ?tv dir m w0)))" for m w0
    by (auto simp add: downloadFirst_def finallyCleanUp_def extractArchive_def cleanUpGlob_def
        Let_def case_prod_beta split: sum.splits outcome.splits)
  show ?thesis
  proof (cases res)
    case (Return p)
    with assms(1,2) run ev n show ?thesis
      by (simp add: downloadAndExtract_unfold)
  next
    case (Throw e)
    let ?w2 = "emit (CoreWarning (util_getErrorMessage env e)) (emit (CoreWarning fallbackWarning) w1)"
    from ev have "ExtractTarZst response None \<in> set (trace ?w2)" by simp
    with keep [of ?w2 "''zstd''"]
    have "ExtractTarZst response None
            \<in> set (trace (snd (downloadFirst env url a h ?tv dir ''zstd'' ?w2)))"
      by blast
    with Throw assms(1,2) run n show ?thesis
      by (simp add: downloadAndExtract_unfold downloadFirst_streamingAttempts)
  next
    case Pending
    with assms(1,2) run ev n show ?thesis
      by (simp add: downloadAndExtract_unfold)
  qed
qed

theorem undefined_tarVersion_forwarded_witness:
  "tar_inferCompressionMethod (demoEnv 200 True True) zstUrl = Inr ''zstd''
   \<and> process_platform (demoEnv 200 True True) = ''linux''
   \<and> new_URL (demoEnv 200 True True) zstUrl = Inr zstUrl
   \<and> https_get (demoEnv 200 True True) (orElse (getProxyUrl (demoEnv 200 True True) zstUrl) zstUrl)
        (requestHeaders None []) STREAMING_HIGH_WATERMARK_BYTES
       = Return \<lparr> statusCode = Some 200, body = [] \<rparr>
   \<and> streamingAttempts (trace (snd (downloadAndExtract (demoEnv 200 True True) zstUrl None []
        None ''/tmp'' demoWorld))) = Suc 0
   \<and> ExtractTarZst \<lparr> statusCode = Some 200, body = [] \<rparr> None
       \<in> set (trace (snd (downloadAndExtract (demoEnv 200 True True) zstUrl None [] None ''/tmp''
            demoWorld)))"
proof -
  let ?E = "demoEnv 200 True True :: nat env"
  let ?r = "\<lparr> statusCode = Some 200, body = [] \<rparr>"
  have h1: "tar_inferCompressionMethod ?E zstUrl = Inr ''zstd''"
    by (simp add: classify_demo)
  have h2: "process_platform ?E = ''linux''"
    by simp
  have h3: "new_URL ?E zstUrl = Inr zstUrl"
    by simp
  have h4: "https_get ?E (orElse (getProxyUrl ?E zstUrl) zstUrl) (requestHeaders None [])
      STREAMING_HIGH_WATERMARK_BYTES = Return ?r"
    by simp
  have h5: "statusCode ?r = Some 200"
    by simp
  note run = undefined_tarVersion_forwarded [OF h1 h2 h3 h4 h5, of "''/tmp''" demoWorld,
      unfolded demoWorld_simps attempts_Cons(1,2)]
  from run h1 h2 h3 h4 show ?thesis
    by blast
qed

end
